theory Spec2Isabelle
  imports Main
begin

section \<open>Errors, outcomes and external collaborators\<close>

text \<open>
  Go errors are values. \<open>errors.New s\<close> is \<open>errors_New s\<close>; \<open>fmt.Errorf "prefix: %w" err\<close>,
  which wraps \<open>err\<close>, is \<open>fmt_Errorf ''prefix: '' err\<close>. Errors handed back by the messenger
  or the stores are arbitrary values of this type.
\<close>

datatype error = errors_New string | fmt_Errorf string error

text \<open>
  A Go function either returns its results or stops with a run-time panic (an index out of
  range, a failed type assertion, a method call on a nil interface).
\<close>

datatype 'a outcome = Panic string | Return 'a

text \<open>
  Pointers to structs (\<open>*metaData\<close>, \<open>*Recipient\<close>, \<open>*connection.Record\<close>) are modelled by the
  struct values themselves: the functions below are only described for non-nil arguments.
  Pointers and interfaces that the code itself tests against \<open>nil\<close> are options.
\<close>

subsection \<open>Connection and DID persistence (package didexchange)\<close>

text \<open>
  Modelled from the spec: the declaration of \<open>connection.Record\<close> is not part of the sources.
  The fields are those of the spec's connection record that the persistence code reads.
\<close>

record Record =
  ConnectionID :: string
  ThreadID :: string
  State :: string
  MyDID :: string
  TheirDID :: string
  RecipientKeys :: "string list"

text \<open>
  Modelled from the spec: the constant \<open>stateNameCompleted\<close> is declared outside the sources;
  the spec gives its value.
\<close>

definition stateNameCompleted :: string where
  "stateNameCompleted = ''completed''"

text \<open>
  \<open>connectionStore\<close> embeds \<open>*connection.Recorder\<close> and \<open>*did.Store\<close>. Their methods live
  outside the sources, so the store is a parameter: a function that tells, from the calls made
  so far and their results, which error (if any) the next call returns. The state that is
  passed along is the log of the calls made with their results.
\<close>

datatype store_call =
    SaveConnectionRecord Record
  | SaveConnectionRecordWithMappings Record
  | SaveDIDByResolving string "string list"

type_synonym store_log = "(store_call \<times> error option) list"

type_synonym connectionStore = "store_log \<Rightarrow> store_call \<Rightarrow> error option"

definition store_invoke :: "connectionStore \<Rightarrow> store_log \<Rightarrow> store_call \<Rightarrow> store_log \<times> error option" where
  "store_invoke c lg call = (let err = c lg call in (lg @ [(call, err)], err))"

definition saveConnectionRecord :: "connectionStore \<Rightarrow> store_log \<Rightarrow> Record \<Rightarrow> store_log \<times> error option" where
  "saveConnectionRecord c lg record =
     (case store_invoke c lg (SaveConnectionRecord record) of
        (lg1, Some err) \<Rightarrow> (lg1, Some (fmt_Errorf '' failed to save connection record : '' err))
      | (lg1, None) \<Rightarrow>
          if State record = stateNameCompleted then
            (case store_invoke c lg1 (SaveDIDByResolving (TheirDID record) (RecipientKeys record)) of
               (lg2, Some err) \<Rightarrow> (lg2, Some (fmt_Errorf '' failed to save DID by resolving : '' err))
             | (lg2, None) \<Rightarrow> (lg2, None))
          else (lg1, None))"

definition saveConnectionRecordWithMapping :: "connectionStore \<Rightarrow> store_log \<Rightarrow> Record \<Rightarrow> store_log \<times> error option" where
  "saveConnectionRecordWithMapping c lg record =
     (case store_invoke c lg (SaveConnectionRecordWithMappings record) of
        (lg1, Some err) \<Rightarrow> (lg1, Some err)
      | (lg1, None) \<Rightarrow>
          if MyDID record \<noteq> '''' then
            (case store_invoke c lg1 (SaveDIDByResolving (MyDID record) []) of
               (lg2, Some err) \<Rightarrow> (lg2, Some err)
             | (lg2, None) \<Rightarrow> (lg2, None))
          else (lg1, None))"

section \<open>The introduce protocol (package introduce)\<close>

subsection \<open>States\<close>

datatype state =
  noOp | start | "done" | arranging | delivering | confirming | abandoning |
  deciding | waiting | requesting

definition stateNameNoop :: string where "stateNameNoop = ''noop''"
definition stateNameStart :: string where "stateNameStart = ''start''"
definition stateNameAbandoning :: string where "stateNameAbandoning = ''abandoning''"
definition stateNameDone :: string where "stateNameDone = ''done''"
definition stateNameArranging :: string where "stateNameArranging = ''arranging''"
definition stateNameDelivering :: string where "stateNameDelivering = ''delivering''"
definition stateNameConfirming :: string where "stateNameConfirming = ''confirming''"
definition stateNameRequesting :: string where "stateNameRequesting = ''requesting''"
definition stateNameDeciding :: string where "stateNameDeciding = ''deciding''"
definition stateNameWaiting :: string where "stateNameWaiting = ''waiting''"

fun Name :: "state \<Rightarrow> string" where
  "Name noOp = stateNameNoop"
| "Name start = stateNameStart"
| "Name done = stateNameDone"
| "Name arranging = stateNameArranging"
| "Name delivering = stateNameDelivering"
| "Name confirming = stateNameConfirming"
| "Name abandoning = stateNameAbandoning"
| "Name deciding = stateNameDeciding"
| "Name waiting = stateNameWaiting"
| "Name requesting = stateNameRequesting"

text \<open>\<open>CanTransitionTo\<close> of each state compares the name of the candidate, as the methods do.\<close>

fun CanTransitionTo :: "state \<Rightarrow> state \<Rightarrow> bool" where
  "CanTransitionTo noOp _ = False"
| "CanTransitionTo start next =
     (Name next = stateNameArranging \<or> Name next = stateNameDeciding \<or>
      Name next = stateNameRequesting \<or> Name next = stateNameAbandoning)"
| "CanTransitionTo done next = False"
| "CanTransitionTo arranging next =
     (Name next = stateNameArranging \<or> Name next = stateNameDone \<or>
      Name next = stateNameAbandoning \<or> Name next = stateNameDelivering)"
| "CanTransitionTo delivering next =
     (Name next = stateNameConfirming \<or> Name next = stateNameDone \<or> Name next = stateNameAbandoning)"
| "CanTransitionTo confirming next =
     (Name next = stateNameDone \<or> Name next = stateNameAbandoning)"
| "CanTransitionTo abandoning next = (Name next = stateNameDone)"
| "CanTransitionTo deciding next =
     (Name next = stateNameWaiting \<or> Name next = stateNameDone \<or> Name next = stateNameAbandoning)"
| "CanTransitionTo waiting next =
     (Name next = stateNameDone \<or> Name next = stateNameAbandoning)"
| "CanTransitionTo requesting next =
     (Name next = stateNameDeciding \<or> Name next = stateNameAbandoning \<or> Name next = stateNameDone)"

text \<open>
  The transition table as the specification writes it (section 4.2), row by row: the legal
  next states of each state.
\<close>

fun spec_legal_next :: "state \<Rightarrow> state list" where
  "spec_legal_next start = [arranging, deciding, requesting, abandoning]"
| "spec_legal_next arranging = [arranging, delivering, abandoning, done]"
| "spec_legal_next delivering = [confirming, done, abandoning]"
| "spec_legal_next confirming = [done, abandoning]"
| "spec_legal_next abandoning = [done]"
| "spec_legal_next deciding = [waiting, done, abandoning]"
| "spec_legal_next waiting = [done, abandoning]"
| "spec_legal_next requesting = [deciding, abandoning, done]"
| "spec_legal_next done = []"
| "spec_legal_next noOp = []"

subsection \<open>Messages, recipients and the protocol context\<close>

text \<open>
  Modelled from the spec: \<open>didexchange.Invitation\<close> is declared outside the sources. The
  protocol only carries invitations around, so an invitation is an opaque document.
\<close>

datatype Invitation_doc = Invitation_doc string

datatype Thread = Thread (ID: string)

text \<open>
  Modelled from the spec: the payload structs (\<open>Proposal\<close>, \<open>Response\<close>,
  \<open>model.ProblemReport\<close>, \<open>model.Ack\<close>) are declared outside the sources. Each constructor
  carries the fields that the code sets, in the order in which it writes them; a relayed
  invitation is the payload \<open>InvitationMsg\<close>.
\<close>

datatype payload =
    Proposal string "string option" "Thread option"
  | ResponseMsg string "Invitation_doc option" bool
  | ProblemReport string
  | Ack string "Thread option"
  | InvitationMsg "Invitation_doc option"

text \<open>The struct that \<open>getApproveFromMsg\<close> decodes into.\<close>

record Response =
  Response_Type :: string
  Response_Invitation :: "Invitation_doc option"
  Approve :: bool

text \<open>
  \<open>service.DIDCommMsg\<close> is an interface: a message answers \<open>Type()\<close> and \<open>ID()\<close>, and
  \<open>Decode\<close> into a \<open>Response\<close> either fails or fills the struct. \<open>isDIDCommMsgMap\<close> tells
  whether the dynamic type of the message is \<open>service.DIDCommMsgMap\<close>, which the type
  assertions of the outbound executions need.
\<close>

record DIDCommMsg =
  msg_Type :: string
  msg_ID :: string
  msg_Decode :: "error + Response"
  isDIDCommMsgMap :: bool

text \<open>What is handed to the messenger: a freshly built message map or the triggering message.\<close>

datatype DIDCommMsgMap = NewDIDCommMsgMap payload | FromMsg DIDCommMsg

text \<open>
  Modelled from the spec: \<open>Recipient\<close> is declared outside the sources: a party descriptor
  with a destination, the own DID and the peer DID.
\<close>

record Recipient =
  To :: "string option"
  MyDID :: string
  TheirDID :: string

text \<open>
  Modelled from the spec: \<open>metaData\<close> is declared outside the sources. The fields are the
  ones the states read. \<open>dependency\<close> is an interface value (\<open>None\<close> is nil) whose
  \<open>Invitation()\<close> method yields a possibly nil invitation.
\<close>

record metaData =
  Msg :: DIDCommMsg
  ThreadID :: string
  WaitCount :: int
  Recipients :: "Recipient list"
  IntroduceeIndex :: int
  Invitation :: "Invitation_doc option"
  myDID :: string
  theirDID :: string
  dependency :: "Invitation_doc option option"
  disapprove :: bool

text \<open>
  The constants and the helper of package introduce that are declared outside the sources
  are parameters of the model: the message type URIs, \<open>initialWaitCount\<close> and the predicate
  \<open>isSkipProposal\<close>.
\<close>

record package =
  ProposalMsgType :: string
  RequestMsgType :: string
  ResponseMsgType :: string
  AckMsgType :: string
  ProblemReportMsgType :: string
  initialWaitCount :: int
  isSkipProposal :: "metaData \<Rightarrow> bool"

subsection \<open>The messenger\<close>

text \<open>
  \<open>service.Messenger\<close> is an external interface. A messenger is a function that tells, from
  the calls made so far and their results, which error (if any) the next call returns. The
  log of calls is the state that the executions pass along; a message has been sent when
  its call returned no error.
\<close>

datatype call =
    Send DIDCommMsgMap string string
  | ReplyTo string DIDCommMsgMap
  | ReplyToNested string DIDCommMsgMap string string

type_synonym log = "(call \<times> error option) list"

type_synonym messenger = "log \<Rightarrow> call \<Rightarrow> error option"

definition invoke :: "messenger \<Rightarrow> log \<Rightarrow> call \<Rightarrow> log \<times> error option" where
  "invoke M lg c = (let err = M lg c in (lg @ [(c, err)], err))"

text \<open>The messages of a log that were sent: the calls that returned no error.\<close>

definition sent :: "log \<Rightarrow> call list" where
  "sent lg = map fst (filter (\<lambda>e. snd e = None) lg)"

text \<open>The pair \<open>(state, error)\<close> that an execution returns; either component may be nil.\<close>

type_synonym result = "(state option \<times> error option) outcome"

text \<open>Indexing a slice with a Go \<open>int\<close>: out of range is a run-time panic (\<open>None\<close>).\<close>

definition index :: "'a list \<Rightarrow> int \<Rightarrow> 'a option" where
  "index xs i = (if 0 \<le> i \<and> i < int (length xs) then Some (xs ! nat i) else None)"

subsection \<open>Helpers of the states\<close>

definition toDestIDx :: "int \<Rightarrow> int" where
  "toDestIDx idx = (if idx = 0 then 1 else 0)"

definition getApproveFromMsg :: "package \<Rightarrow> DIDCommMsg \<Rightarrow> bool \<times> bool" where
  "getApproveFromMsg K msg =
     (if msg_Type msg \<noteq> ResponseMsgType K then (False, False)
      else case msg_Decode msg of
             Inl err \<Rightarrow> (False, False)
           | Inr r \<Rightarrow> (Approve r, True))"

fun sendProblemReport :: "package \<Rightarrow> messenger \<Rightarrow> log \<Rightarrow> metaData \<Rightarrow> Recipient list \<Rightarrow> log \<times> result" where
  "sendProblemReport K M lg m [] = (lg, Return (Some done, None))"
| "sendProblemReport K M lg m (recipient # recipients) =
     (case invoke M lg (ReplyToNested (ThreadID m)
                          (NewDIDCommMsgMap (ProblemReport (ProblemReportMsgType K)))
                          (MyDID recipient) (TheirDID recipient)) of
        (lg1, Some err) \<Rightarrow> (lg1, Return (None, Some (fmt_Errorf ''send problem-report: '' err)))
      | (lg1, None) \<Rightarrow> sendProblemReport K M lg1 m recipients)"

definition deliveringSkipInvitation :: "messenger \<Rightarrow> log \<Rightarrow> metaData \<Rightarrow> Recipient list \<Rightarrow> log \<times> result" where
  "deliveringSkipInvitation M lg m recipients =
     (case dependency m of
        None \<Rightarrow> (lg, Panic ''nil pointer dereference'')
      | Some invitation \<Rightarrow>
          (case index recipients 0 of
             None \<Rightarrow> (lg, Panic ''index out of range'')
           | Some r0 \<Rightarrow>
               (case invoke M lg (ReplyToNested (ThreadID m) (NewDIDCommMsgMap (InvitationMsg invitation))
                                    (MyDID r0) (TheirDID r0)) of
                  (lg1, Some err) \<Rightarrow>
                    (lg1, Return (None, Some (fmt_Errorf ''send inbound invitation (skip): '' err)))
                | (lg1, None) \<Rightarrow> (lg1, Return (Some done, None)))))"

text \<open>
  \<open>fillRecipient\<close> appends to an empty slice and otherwise writes through the pointer of
  the first element; here the slice it returns.
\<close>

definition fillRecipient :: "Recipient list \<Rightarrow> metaData \<Rightarrow> Recipient list" where
  "fillRecipient recipients m =
     (case recipients of
        [] \<Rightarrow> recipients @ [\<lparr>To = None, MyDID = myDID m, TheirDID = theirDID m\<rparr>]
      | r0 # rest \<Rightarrow>
          (let r1 = (if MyDID r0 = '''' then r0\<lparr>MyDID := myDID m\<rparr> else r0);
               r2 = (if TheirDID r1 = '''' then r1\<lparr>TheirDID := theirDID m\<rparr> else r1)
           in r2 # rest))"

text \<open>The slice expression \<open>recipients[:1]\<close>, which panics on an empty slice of no capacity.\<close>

definition slice_to_1 :: "'a list \<Rightarrow> 'a list option" where
  "slice_to_1 xs = (if length xs < 1 then None else Some (take 1 xs))"

subsection \<open>Execution of the states\<close>

text \<open>
  Each execution takes the package parameters, the messenger, the log so far and the
  context, and gives the new log with the returned pair. The executions that ignore the
  messenger leave the log as it is.
\<close>

definition noOp_ExecuteInbound :: "messenger \<Rightarrow> log \<Rightarrow> metaData \<Rightarrow> log \<times> result" where
  "noOp_ExecuteInbound M lg m = (lg, Return (None, Some (errors_New ''cannot execute no-op'')))"

definition noOp_ExecuteOutbound :: "messenger \<Rightarrow> log \<Rightarrow> metaData \<Rightarrow> log \<times> result" where
  "noOp_ExecuteOutbound M lg m = (lg, Return (None, Some (errors_New ''cannot execute no-op'')))"

definition start_ExecuteInbound :: "messenger \<Rightarrow> log \<Rightarrow> metaData \<Rightarrow> log \<times> result" where
  "start_ExecuteInbound M lg m =
     (lg, Return (None, Some (errors_New ''start: ExecuteInbound function is not supposed to be used'')))"

definition start_ExecuteOutbound :: "messenger \<Rightarrow> log \<Rightarrow> metaData \<Rightarrow> log \<times> result" where
  "start_ExecuteOutbound M lg m =
     (lg, Return (None, Some (errors_New ''start: ExecuteOutbound function is not supposed to be used'')))"

definition done_ExecuteInbound :: "messenger \<Rightarrow> log \<Rightarrow> metaData \<Rightarrow> log \<times> result" where
  "done_ExecuteInbound M lg m = (lg, Return (Some noOp, None))"

definition done_ExecuteOutbound :: "messenger \<Rightarrow> log \<Rightarrow> metaData \<Rightarrow> log \<times> result" where
  "done_ExecuteOutbound M lg m =
     (lg, Return (None, Some (errors_New ''done: ExecuteOutbound function is not supposed to be used'')))"

definition arranging_ExecuteInbound :: "package \<Rightarrow> messenger \<Rightarrow> log \<Rightarrow> metaData \<Rightarrow> log \<times> result" where
  "arranging_ExecuteInbound K M lg m =
     (if msg_Type (Msg m) = ResponseMsgType K \<and> isSkipProposal K m then
        (lg, Return (Some delivering, None))
      else case getApproveFromMsg K (Msg m) of (approve, ok) \<Rightarrow>
        if ok \<and> \<not> approve then (lg, Return (Some abandoning, None))
        else
          (case (if WaitCount m = initialWaitCount K then index (Recipients m) 0
                 else index (Recipients m) 1) of
             None \<Rightarrow> (lg, Panic ''index out of range'')
           | Some recipient \<Rightarrow>
               (case invoke M lg (Send (NewDIDCommMsgMap
                                          (Proposal (ProposalMsgType K) (To recipient)
                                                    (Some (Thread (ThreadID m)))))
                                       (MyDID recipient) (TheirDID recipient)) of
                  (lg1, err) \<Rightarrow> (lg1, Return (Some noOp, err)))))"

definition arranging_ExecuteOutbound :: "messenger \<Rightarrow> log \<Rightarrow> metaData \<Rightarrow> log \<times> result" where
  "arranging_ExecuteOutbound M lg m =
     (if \<not> isDIDCommMsgMap (Msg m) then (lg, Panic ''interface conversion'')
      else case invoke M lg (Send (FromMsg (Msg m)) (myDID m) (theirDID m)) of
             (lg1, Some err) \<Rightarrow> (lg1, Return (None, Some (fmt_Errorf ''arranging: Send: '' err)))
           | (lg1, None) \<Rightarrow> (lg1, Return (Some noOp, None)))"

definition delivering_ExecuteInbound :: "package \<Rightarrow> messenger \<Rightarrow> log \<Rightarrow> metaData \<Rightarrow> log \<times> result" where
  "delivering_ExecuteInbound K M lg m =
     (case getApproveFromMsg K (Msg m) of (approve, ok) \<Rightarrow>
        if ok \<and> \<not> approve then (lg, Return (Some abandoning, None))
        else if isSkipProposal K m then deliveringSkipInvitation M lg m (Recipients m)
        else if Invitation m = None then (lg, Return (Some abandoning, None))
        else
          (case index (Recipients m) (toDestIDx (IntroduceeIndex m)) of
             None \<Rightarrow> (lg, Panic ''index out of range'')
           | Some recipient \<Rightarrow>
               (case invoke M lg (ReplyToNested (ThreadID m)
                                    (NewDIDCommMsgMap (InvitationMsg (Invitation m)))
                                    (MyDID recipient) (TheirDID recipient)) of
                  (lg1, Some err) \<Rightarrow>
                    (lg1, Return (None, Some (fmt_Errorf ''send inbound invitation: '' err)))
                | (lg1, None) \<Rightarrow> (lg1, Return (Some confirming, None)))))"

definition delivering_ExecuteOutbound :: "messenger \<Rightarrow> log \<Rightarrow> metaData \<Rightarrow> log \<times> result" where
  "delivering_ExecuteOutbound M lg m =
     (lg, Return (None, Some (errors_New ''delivering: ExecuteOutbound function is not supposed to be used'')))"

definition confirming_ExecuteInbound :: "package \<Rightarrow> messenger \<Rightarrow> log \<Rightarrow> metaData \<Rightarrow> log \<times> result" where
  "confirming_ExecuteInbound K M lg m =
     (case index (Recipients m) (IntroduceeIndex m) of
        None \<Rightarrow> (lg, Panic ''index out of range'')
      | Some recipient \<Rightarrow>
          (case invoke M lg (Send (NewDIDCommMsgMap (Ack (AckMsgType K) (Some (Thread (ThreadID m)))))
                                  (MyDID recipient) (TheirDID recipient)) of
             (lg1, Some err) \<Rightarrow> (lg1, Return (None, Some (fmt_Errorf ''send ack: '' err)))
           | (lg1, None) \<Rightarrow> (lg1, Return (Some done, None))))"

definition confirming_ExecuteOutbound :: "messenger \<Rightarrow> log \<Rightarrow> metaData \<Rightarrow> log \<times> result" where
  "confirming_ExecuteOutbound M lg m =
     (lg, Return (None, Some (errors_New ''confirming: ExecuteOutbound function is not supposed to be used'')))"

text \<open>
  The recipients that \<open>abandoning.ExecuteInbound\<close> holds after its two tests of the message
  type: the variable starts as nil, and the second test overrides the first.
\<close>

definition abandoning_recipients :: "package \<Rightarrow> metaData \<Rightarrow> Recipient list" where
  "abandoning_recipients K m =
     (let recipients0 = [];
          recipients1 = (if msg_Type (Msg m) = RequestMsgType K then fillRecipient [] m
                         else recipients0)
      in if msg_Type (Msg m) = ResponseMsgType K then fillRecipient (Recipients m) m
         else recipients1)"

definition abandoning_ExecuteInbound :: "package \<Rightarrow> messenger \<Rightarrow> log \<Rightarrow> metaData \<Rightarrow> log \<times> result" where
  "abandoning_ExecuteInbound K M lg m =
     (let recipients = abandoning_recipients K m
      in case getApproveFromMsg K (Msg m) of (approve, ok) \<Rightarrow>
        if ok \<and> \<not> approve then
          (if WaitCount m = 1 then (lg, Return (Some done, None))
           else case slice_to_1 recipients of
                  None \<Rightarrow> (lg, Panic ''slice bounds out of range'')
                | Some recipients' \<Rightarrow> sendProblemReport K M lg m recipients')
        else sendProblemReport K M lg m recipients)"

definition abandoning_ExecuteOutbound :: "messenger \<Rightarrow> log \<Rightarrow> metaData \<Rightarrow> log \<times> result" where
  "abandoning_ExecuteOutbound M lg m =
     (lg, Return (None, Some (errors_New ''abandoning: ExecuteOutbound function is not supposed to be used'')))"

definition deciding_ExecuteInbound :: "package \<Rightarrow> messenger \<Rightarrow> log \<Rightarrow> metaData \<Rightarrow> log \<times> result" where
  "deciding_ExecuteInbound K M lg m =
     (let invitation = (case dependency m of None \<Rightarrow> None | Some d \<Rightarrow> d);
          st = (if disapprove m then abandoning else waiting)
      in case invoke M lg (ReplyTo (msg_ID (Msg m))
                             (NewDIDCommMsgMap
                                (ResponseMsg (ResponseMsgType K) invitation (\<not> disapprove m)))) of
           (lg1, err) \<Rightarrow> (lg1, Return (Some st, err)))"

definition deciding_ExecuteOutbound :: "messenger \<Rightarrow> log \<Rightarrow> metaData \<Rightarrow> log \<times> result" where
  "deciding_ExecuteOutbound M lg m =
     (lg, Return (None, Some (errors_New ''deciding: ExecuteOutbound function is not supposed to be used'')))"

definition waiting_ExecuteInbound :: "messenger \<Rightarrow> log \<Rightarrow> metaData \<Rightarrow> log \<times> result" where
  "waiting_ExecuteInbound M lg m = (lg, Return (Some noOp, None))"

definition waiting_ExecuteOutbound :: "messenger \<Rightarrow> log \<Rightarrow> metaData \<Rightarrow> log \<times> result" where
  "waiting_ExecuteOutbound M lg m =
     (lg, Return (None, Some (errors_New ''waiting: ExecuteOutbound function is not supposed to be used'')))"

definition requesting_ExecuteInbound :: "messenger \<Rightarrow> log \<Rightarrow> metaData \<Rightarrow> log \<times> result" where
  "requesting_ExecuteInbound M lg m =
     (lg, Return (None, Some (errors_New ''requesting: ExecuteInbound function is not supposed to be used'')))"

definition requesting_ExecuteOutbound :: "messenger \<Rightarrow> log \<Rightarrow> metaData \<Rightarrow> log \<times> result" where
  "requesting_ExecuteOutbound M lg m =
     (if \<not> isDIDCommMsgMap (Msg m) then (lg, Panic ''interface conversion'')
      else case invoke M lg (Send (FromMsg (Msg m)) (myDID m) (theirDID m)) of
             (lg1, err) \<Rightarrow> (lg1, Return (Some noOp, err)))"

text \<open>The two methods of the \<open>state\<close> interface, dispatched on the state.\<close>

fun ExecuteInbound :: "package \<Rightarrow> state \<Rightarrow> messenger \<Rightarrow> log \<Rightarrow> metaData \<Rightarrow> log \<times> result" where
  "ExecuteInbound K noOp M lg m = noOp_ExecuteInbound M lg m"
| "ExecuteInbound K start M lg m = start_ExecuteInbound M lg m"
| "ExecuteInbound K done M lg m = done_ExecuteInbound M lg m"
| "ExecuteInbound K arranging M lg m = arranging_ExecuteInbound K M lg m"
| "ExecuteInbound K delivering M lg m = delivering_ExecuteInbound K M lg m"
| "ExecuteInbound K confirming M lg m = confirming_ExecuteInbound K M lg m"
| "ExecuteInbound K abandoning M lg m = abandoning_ExecuteInbound K M lg m"
| "ExecuteInbound K deciding M lg m = deciding_ExecuteInbound K M lg m"
| "ExecuteInbound K waiting M lg m = waiting_ExecuteInbound M lg m"
| "ExecuteInbound K requesting M lg m = requesting_ExecuteInbound M lg m"

fun ExecuteOutbound :: "package \<Rightarrow> state \<Rightarrow> messenger \<Rightarrow> log \<Rightarrow> metaData \<Rightarrow> log \<times> result" where
  "ExecuteOutbound K noOp M lg m = noOp_ExecuteOutbound M lg m"
| "ExecuteOutbound K start M lg m = start_ExecuteOutbound M lg m"
| "ExecuteOutbound K done M lg m = done_ExecuteOutbound M lg m"
| "ExecuteOutbound K arranging M lg m = arranging_ExecuteOutbound M lg m"
| "ExecuteOutbound K delivering M lg m = delivering_ExecuteOutbound M lg m"
| "ExecuteOutbound K confirming M lg m = confirming_ExecuteOutbound M lg m"
| "ExecuteOutbound K abandoning M lg m = abandoning_ExecuteOutbound M lg m"
| "ExecuteOutbound K deciding M lg m = deciding_ExecuteOutbound M lg m"
| "ExecuteOutbound K waiting M lg m = waiting_ExecuteOutbound M lg m"
| "ExecuteOutbound K requesting M lg m = requesting_ExecuteOutbound M lg m"

text \<open>An execution has failed when it panicked or returned a non-nil error.\<close>

fun failed :: "result \<Rightarrow> bool" where
  "failed (Panic _) = True"
| "failed (Return (_, err)) = (err \<noteq> None)"

subsection \<open>Sample values\<close>

definition sample_package :: package where
  "sample_package =
     \<lparr>ProposalMsgType = ''proposal'', RequestMsgType = ''request'',
      ResponseMsgType = ''response'', AckMsgType = ''ack'',
      ProblemReportMsgType = ''problem-report'', initialWaitCount = 2,
      isSkipProposal = (\<lambda>m. length (Recipients m) = 1)\<rparr>"

definition response_msg :: "bool \<Rightarrow> DIDCommMsg" where
  "response_msg a =
     \<lparr>msg_Type = ''response'', msg_ID = ''id-1'',
      msg_Decode = Inr \<lparr>Response_Type = ''response'', Response_Invitation = None, Approve = a\<rparr>,
      isDIDCommMsgMap = True\<rparr>"

definition broken_msg :: DIDCommMsg where
  "broken_msg =
     \<lparr>msg_Type = ''response'', msg_ID = ''id-2'',
      msg_Decode = Inl (errors_New ''unexpected end of JSON input''),
      isDIDCommMsgMap = True\<rparr>"

definition alice :: Recipient where
  "alice = \<lparr>To = Some ''Bob'', MyDID = ''did:me:a'', TheirDID = ''did:alice''\<rparr>"

definition bob :: Recipient where
  "bob = \<lparr>To = Some ''Alice'', MyDID = ''did:me:b'', TheirDID = ''did:bob''\<rparr>"

definition sample_metaData :: "DIDCommMsg \<Rightarrow> int \<Rightarrow> Recipient list \<Rightarrow> metaData" where
  "sample_metaData msg wc rs =
     \<lparr>Msg = msg, ThreadID = ''thread-1'', WaitCount = wc, Recipients = rs,
      IntroduceeIndex = 0, Invitation = None, myDID = ''did:me'', theirDID = ''did:peer'',
      dependency = None, disapprove = False\<rparr>"

text \<open>A messenger that accepts every call, and one that accepts only its first call.\<close>

definition reliable :: messenger where
  "reliable lg c = None"

definition fails_after_first :: messenger where
  "fails_after_first lg c = (if lg = [] then None else Some (errors_New ''connection lost''))"

definition problem_report_to :: "package \<Rightarrow> metaData \<Rightarrow> Recipient \<Rightarrow> call" where
  "problem_report_to K m r =
     ReplyToNested (ThreadID m) (NewDIDCommMsgMap (ProblemReport (ProblemReportMsgType K)))
                   (MyDID r) (TheirDID r)"

text \<open>The test \<open>ok && !approve\<close> that the introducer's states apply to the triggering message.\<close>

definition disapproved :: "package \<Rightarrow> DIDCommMsg \<Rightarrow> bool" where
  "disapproved K msg = (case getApproveFromMsg K msg of (approve, ok) \<Rightarrow> ok \<and> \<not> approve)"

text \<open>A messenger that refuses every call.\<close>

definition unreachable :: messenger where
  "unreachable lg c = Some (errors_New ''no route'')"

text \<open>Sample stores and a sample connection record.\<close>

definition store_ok :: connectionStore where
  "store_ok lg call = None"

definition did_store_down :: connectionStore where
  "did_store_down lg call =
     (case call of SaveDIDByResolving d ks \<Rightarrow> Some (errors_New ''resolve failed'') | _ \<Rightarrow> None)"

definition sample_record :: "string \<Rightarrow> Record" where
  "sample_record st =
     \<lparr>ConnectionID = ''conn-1'', ThreadID = ''thread-1'', State = st,
      MyDID = ''did:me'', TheirDID = ''did:peer'', RecipientKeys = [''key-1'']\<rparr>"

text \<open>
  The recipients that \<open>abandoning.ExecuteInbound\<close> hands to \<open>sendProblemReport\<close>: none on
  the \<open>WaitCount\<close> short cut of a disapproval, the first one (\<open>recipients[:1]\<close>) on any
  other disapproval, all of them otherwise.
\<close>

definition abandoning_addressed :: "package \<Rightarrow> metaData \<Rightarrow> Recipient list" where
  "abandoning_addressed K m =
     (if disapproved K (Msg m)
      then (if WaitCount m = 1 then [] else take 1 (abandoning_recipients K m))
      else abandoning_recipients K m)"

text \<open>The log entry of a problem-report that the messenger accepted.\<close>

definition accepted :: "package \<Rightarrow> metaData \<Rightarrow> Recipient \<Rightarrow> call \<times> error option" where
  "accepted K m r = (problem_report_to K m r, None)"

text \<open>
  Two shapes of an execution, read off its log and result. \<open>no_call\<close>: the log is unchanged.
  \<open>single_call\<close>: exactly one call was appended with the messenger's answer; when the
  messenger accepted it, a followup state and a nil error are returned, and when it refused
  it, the execution has failed.
\<close>

definition no_call :: "log \<Rightarrow> log \<Rightarrow> result \<Rightarrow> bool" where
  "no_call lg lg' res \<longleftrightarrow> lg' = lg \<and> (failed res \<or> (\<exists>st. res = Return (Some st, None)))"

definition single_call :: "messenger \<Rightarrow> log \<Rightarrow> log \<Rightarrow> result \<Rightarrow> bool" where
  "single_call M lg lg' res \<longleftrightarrow>
     (\<exists>c. lg' = lg @ [(c, M lg c)] \<and>
          (case M lg c of
             None \<Rightarrow> (\<exists>st. res = Return (Some st, None))
           | Some err \<Rightarrow> failed res))"

section \<open>Properties\<close>

lemmas stateName_defs =
  stateNameNoop_def stateNameStart_def stateNameAbandoning_def stateNameDone_def
  stateNameArranging_def stateNameDelivering_def stateNameConfirming_def
  stateNameRequesting_def stateNameDeciding_def stateNameWaiting_def

subsection \<open>Transition legality\<close>

text \<open>
  C1. For every ordered pair of states \<open>(s, n)\<close> among the ten states of the introduce
  protocol, \<open>s.CanTransitionTo(n)\<close> is true exactly when the transition table of the
  specification lists \<open>n\<close> as a legal next state of \<open>s\<close>.
\<close>

theorem CanTransitionTo_matches_table:
  "CanTransitionTo s n = (n \<in> set (spec_legal_next s))"
  by (cases s; cases n; simp add: stateName_defs)

subsection \<open>The done state\<close>

text \<open>
  C8. For every messenger, log and context, \<open>done.ExecuteInbound\<close> returns the \<open>noOp\<close>
  followup with a nil error, and the log of messenger calls is unchanged: nothing is sent.
\<close>

theorem done_ExecuteInbound_noOp:
  "ExecuteInbound K done M lg m = (lg, Return (Some noOp, None))"
  by (simp add: done_ExecuteInbound_def)

subsection \<open>Skip-proposal routing in arranging\<close>

text \<open>
  C4. When the triggering message has type \<open>ResponseMsgType\<close> and \<open>isSkipProposal\<close> holds of
  the context, \<open>arranging.ExecuteInbound\<close> returns \<open>delivering\<close> with a nil error and makes no
  messenger call.
\<close>

theorem arranging_skip_proposal:
  assumes "msg_Type (Msg m) = ResponseMsgType K" and "isSkipProposal K m"
  shows "arranging_ExecuteInbound K M lg m = (lg, Return (Some delivering, None))"
  using assms by (simp add: arranging_ExecuteInbound_def)

theorem arranging_skip_proposal_witness:
  "msg_Type (Msg (sample_metaData (response_msg True) 2 [alice])) = ResponseMsgType sample_package
   \<and> isSkipProposal sample_package (sample_metaData (response_msg True) 2 [alice])
   \<and> arranging_ExecuteInbound sample_package reliable [] (sample_metaData (response_msg True) 2 [alice])
       = ([], Return (Some delivering, None))"
proof -
  let ?m = "sample_metaData (response_msg True) 2 [alice]"
  have t: "msg_Type (Msg ?m) = ResponseMsgType sample_package"
    by (simp add: sample_metaData_def response_msg_def sample_package_def)
  have s: "isSkipProposal sample_package ?m"
    by (simp add: sample_metaData_def sample_package_def)
  from t s arranging_skip_proposal [OF t s, of reliable "[]"] show ?thesis by simp
qed

lemmas sample_defs =
  sample_package_def sample_metaData_def response_msg_def broken_msg_def alice_def bob_def
  reliable_def fails_after_first_def unreachable_def problem_report_to_def

subsection \<open>The messenger log\<close>

lemma invoke_eq: "invoke M lg c = (lg @ [(c, M lg c)], M lg c)"
  by (simp add: invoke_def Let_def)

lemma sendProblemReport_single:
  "sendProblemReport K M lg m [r] =
     (lg @ [(problem_report_to K m r, M lg (problem_report_to K m r))],
      Return (case M lg (problem_report_to K m r) of
                None \<Rightarrow> (Some done, None)
              | Some err \<Rightarrow> (None, Some (fmt_Errorf ''send problem-report: '' err))))"
  by (simp add: invoke_eq problem_report_to_def split: option.splits)

lemma fillRecipient_nonempty: "fillRecipient rs m \<noteq> []"
  by (simp add: fillRecipient_def Let_def split: list.splits)

lemma getApprove_ok_type: "getApproveFromMsg K msg = (a, True) \<Longrightarrow> msg_Type msg = ResponseMsgType K"
  by (auto simp: getApproveFromMsg_def split: if_splits sum.splits)

lemma abandoning_recipients_response:
  "msg_Type (Msg m) = ResponseMsgType K \<Longrightarrow> abandoning_recipients K m = fillRecipient (Recipients m) m"
  by (simp add: abandoning_recipients_def Let_def)

lemma getApprove_no_signal:
  "msg_Type msg \<noteq> ResponseMsgType K \<or> isl (msg_Decode msg) \<Longrightarrow>
     getApproveFromMsg K msg = (False, False)"
  by (auto simp: getApproveFromMsg_def isl_def)

lemma deliveringSkipInvitation_not_abandoning:
  "deliveringSkipInvitation M lg m rs \<noteq> (lg', Return (Some abandoning, e))"
  by (auto simp: deliveringSkipInvitation_def invoke_eq split: option.splits)

subsection \<open>The no-invitation edge case of delivering\<close>

text \<open>
  C10. When the triggering message carries no disapproval signal (the test
  \<open>ok && !approve\<close> fails), \<open>isSkipProposal\<close> is false and \<open>metaData.Invitation\<close> is nil,
  \<open>delivering.ExecuteInbound\<close> returns \<open>abandoning\<close> with a nil error and makes no messenger
  call.
\<close>

theorem delivering_no_invitation:
  assumes "\<not> disapproved K (Msg m)" and "\<not> isSkipProposal K m" and "Invitation m = None"
  shows "delivering_ExecuteInbound K M lg m = (lg, Return (Some abandoning, None))"
  using assms by (auto simp: delivering_ExecuteInbound_def disapproved_def split: prod.splits)

theorem delivering_no_invitation_witness:
  "\<not> disapproved sample_package (Msg (sample_metaData (response_msg True) 1 [alice, bob]))
   \<and> \<not> isSkipProposal sample_package (sample_metaData (response_msg True) 1 [alice, bob])
   \<and> Invitation (sample_metaData (response_msg True) 1 [alice, bob]) = None
   \<and> delivering_ExecuteInbound sample_package reliable [] (sample_metaData (response_msg True) 1 [alice, bob])
       = ([], Return (Some abandoning, None))"
proof -
  let ?m = "sample_metaData (response_msg True) 1 [alice, bob]"
  have a: "\<not> disapproved sample_package (Msg ?m)"
    by (simp add: disapproved_def getApproveFromMsg_def sample_defs)
  have b: "\<not> isSkipProposal sample_package ?m"
    by (simp add: sample_defs)
  have c: "Invitation ?m = None"
    by (simp add: sample_defs)
  from a b c delivering_no_invitation [OF a b c, of reliable "[]"] show ?thesis by simp
qed

subsection \<open>Lazy recipient hydration\<close>

text \<open>
  C7. On an empty (or nil) slice \<open>fillRecipient\<close> returns exactly one synthesized recipient,
  whose \<open>MyDID\<close> and \<open>TheirDID\<close> are the own and peer DID of the inbound message. On a
  non-empty slice it fills \<open>MyDID\<close> and \<open>TheirDID\<close> of the first recipient only where the
  field is empty: a non-empty field keeps its value, the destination is untouched, and the
  recipients after the first are returned as they were.
\<close>

theorem fillRecipient_contract:
  "fillRecipient [] m = [\<lparr>To = None, MyDID = myDID m, TheirDID = theirDID m\<rparr>]
   \<and> fillRecipient (r # rs) m =
        r\<lparr>MyDID := (if MyDID r = [] then myDID m else MyDID r),
          TheirDID := (if TheirDID r = [] then theirDID m else TheirDID r)\<rparr> # rs
   \<and> (MyDID r \<noteq> [] \<longrightarrow> MyDID (hd (fillRecipient (r # rs) m)) = MyDID r)
   \<and> (TheirDID r \<noteq> [] \<longrightarrow> TheirDID (hd (fillRecipient (r # rs) m)) = TheirDID r)
   \<and> To (hd (fillRecipient (r # rs) m)) = To r
   \<and> tl (fillRecipient (r # rs) m) = rs"
  by (simp add: fillRecipient_def Let_def)

theorem fillRecipient_contract_witness:
  "fillRecipient [] (sample_metaData (response_msg True) 2 []) =
     [\<lparr>To = None, MyDID = ''did:me'', TheirDID = ''did:peer''\<rparr>]
   \<and> fillRecipient [alice\<lparr>TheirDID := []\<rparr>, bob\<lparr>MyDID := []\<rparr>] (sample_metaData (response_msg True) 2 [])
       = [alice\<lparr>TheirDID := ''did:peer''\<rparr>, bob\<lparr>MyDID := []\<rparr>]
   \<and> MyDID alice \<noteq> []
   \<and> MyDID (hd (fillRecipient [alice\<lparr>TheirDID := []\<rparr>, bob\<lparr>MyDID := []\<rparr>] (sample_metaData (response_msg True) 2 []))) = MyDID alice"
  using fillRecipient_contract [of "sample_metaData (response_msg True) 2 []" "alice\<lparr>TheirDID := []\<rparr>" "[bob\<lparr>MyDID := []\<rparr>]"]
  by (simp add: sample_defs)

subsection \<open>Disapproval in abandoning\<close>

text \<open>
  C3. Let the triggering message be a Response that decodes with \<open>Approve = false\<close>. If
  \<open>WaitCount\<close> is 1, \<open>abandoning.ExecuteInbound\<close> returns \<open>done\<close> and makes no messenger
  call. Otherwise it makes exactly one messenger call, the problem-report addressed to
  \<open>recipients[0]\<close> (the first recipient after \<open>fillRecipient\<close>), and returns \<open>done\<close> when
  the messenger accepts it; when the messenger refuses it, the wrapped error comes back.
\<close>

theorem abandoning_disapproval:
  assumes "msg_Type (Msg m) = ResponseMsgType K"
    and "msg_Decode (Msg m) = Inr r"
    and "\<not> Approve r"
  shows "(WaitCount m = 1 \<longrightarrow>
            abandoning_ExecuteInbound K M lg m = (lg, Return (Some done, None)))
       \<and> (WaitCount m \<noteq> 1 \<longrightarrow>
            (let c = problem_report_to K m (hd (fillRecipient (Recipients m) m))
             in fst (abandoning_ExecuteInbound K M lg m) = lg @ [(c, M lg c)]
              \<and> snd (abandoning_ExecuteInbound K M lg m) =
                  Return (case M lg c of
                            None \<Rightarrow> (Some done, None)
                          | Some err \<Rightarrow> (None, Some (fmt_Errorf ''send problem-report: '' err)))))"
proof -
  have g: "getApproveFromMsg K (Msg m) = (False, True)"
    using assms by (simp add: getApproveFromMsg_def)
  have rs: "abandoning_recipients K m = fillRecipient (Recipients m) m"
    using assms(1) by (rule abandoning_recipients_response)
  obtain r0 rest where f: "fillRecipient (Recipients m) m = r0 # rest"
    using fillRecipient_nonempty [of "Recipients m" m] by (cases "fillRecipient (Recipients m) m") auto
  have one: "WaitCount m = 1 \<Longrightarrow> abandoning_ExecuteInbound K M lg m = (lg, Return (Some done, None))"
    by (simp add: abandoning_ExecuteInbound_def g Let_def)
  have other: "WaitCount m \<noteq> 1 \<Longrightarrow>
      abandoning_ExecuteInbound K M lg m = sendProblemReport K M lg m [r0]"
    by (simp add: abandoning_ExecuteInbound_def g rs f slice_to_1_def Let_def
          del: sendProblemReport.simps)
  show ?thesis
    using one other
    by (simp add: f sendProblemReport_single Let_def del: sendProblemReport.simps)
qed

theorem abandoning_disapproval_witness:
  "msg_Type (Msg (sample_metaData (response_msg False) 1 [alice, bob])) = ResponseMsgType sample_package
   \<and> msg_Decode (Msg (sample_metaData (response_msg False) 1 [alice, bob]))
       = Inr \<lparr>Response_Type = ''response'', Response_Invitation = None, Approve = False\<rparr>
   \<and> abandoning_ExecuteInbound sample_package reliable [] (sample_metaData (response_msg False) 1 [alice, bob])
       = ([], Return (Some done, None))
   \<and> abandoning_ExecuteInbound sample_package reliable [] (sample_metaData (response_msg False) 2 [alice, bob])
       = ([(problem_report_to sample_package (sample_metaData (response_msg False) 2 [alice, bob]) alice, None)],
          Return (Some done, None))"
proof -
  let ?r = "\<lparr>Response_Type = ''response'', Response_Invitation = None, Approve = False\<rparr>"
  let ?m1 = "sample_metaData (response_msg False) 1 [alice, bob]"
  let ?m2 = "sample_metaData (response_msg False) 2 [alice, bob]"
  have t1: "msg_Type (Msg ?m1) = ResponseMsgType sample_package"
    and t2: "msg_Type (Msg ?m2) = ResponseMsgType sample_package"
    by (simp_all add: sample_defs)
  have d1: "msg_Decode (Msg ?m1) = Inr ?r" and d2: "msg_Decode (Msg ?m2) = Inr ?r"
    by (simp_all add: sample_defs)
  have a: "\<not> Approve ?r" by simp
  have f: "hd (fillRecipient (Recipients ?m2) ?m2) = alice"
    by (simp add: fillRecipient_def sample_defs)
  from abandoning_disapproval [OF t1 d1 a, of reliable "[]"]
  have w1: "abandoning_ExecuteInbound sample_package reliable [] ?m1 = ([], Return (Some done, None))"
    by (simp add: sample_metaData_def)
  from abandoning_disapproval [OF t2 d2 a, of reliable "[]"]
  have w2: "abandoning_ExecuteInbound sample_package reliable [] ?m2
      = ([(problem_report_to sample_package ?m2 alice, None)], Return (Some done, None))"
    unfolding f Let_def by (simp add: sample_metaData_def reliable_def prod_eq_iff)
  from t1 d1 w1 w2 show ?thesis by simp
qed

subsection \<open>Decode failures are not disapprovals\<close>

text \<open>
  C6. For a message whose type is not \<open>ResponseMsgType\<close>, or whose payload does not decode
  as a Response, \<open>getApproveFromMsg\<close> reports no approve signal (its second result is
  false), so the disapproval test fails. Hence \<open>arranging.ExecuteInbound\<close> never answers
  \<open>abandoning\<close>; \<open>delivering.ExecuteInbound\<close> answers \<open>abandoning\<close> only through its
  no-invitation edge case; and \<open>abandoning.ExecuteInbound\<close> neither short-circuits on
  \<open>WaitCount\<close> nor cuts the recipients down to the first.
\<close>

theorem decode_failure_no_disapproval:
  assumes "msg_Type (Msg m) \<noteq> ResponseMsgType K \<or> isl (msg_Decode (Msg m))"
  shows "getApproveFromMsg K (Msg m) = (False, False)
       \<and> \<not> disapproved K (Msg m)
       \<and> (\<forall>lg' e. arranging_ExecuteInbound K M lg m \<noteq> (lg', Return (Some abandoning, e)))
       \<and> (\<forall>lg' e. delivering_ExecuteInbound K M lg m = (lg', Return (Some abandoning, e))
            \<longrightarrow> \<not> isSkipProposal K m \<and> Invitation m = None)
       \<and> abandoning_ExecuteInbound K M lg m = sendProblemReport K M lg m (abandoning_recipients K m)"
proof -
  have g: "getApproveFromMsg K (Msg m) = (False, False)"
    using assms by (rule getApprove_no_signal)
  have d: "\<not> disapproved K (Msg m)"
    by (simp add: disapproved_def g)
  have a: "arranging_ExecuteInbound K M lg m \<noteq> (lg', Return (Some abandoning, e))" for lg' e
    by (auto simp: arranging_ExecuteInbound_def g invoke_eq split: option.splits)
  have b: "\<not> isSkipProposal K m \<and> Invitation m = None"
    if "delivering_ExecuteInbound K M lg m = (lg', Return (Some abandoning, e))" for lg' e
    using that deliveringSkipInvitation_not_abandoning [of M lg m "Recipients m" lg' e]
    by (auto simp: delivering_ExecuteInbound_def g invoke_eq split: if_splits option.splits)
  have c: "abandoning_ExecuteInbound K M lg m = sendProblemReport K M lg m (abandoning_recipients K m)"
    by (simp add: abandoning_ExecuteInbound_def g Let_def)
  from g d a b c show ?thesis by blast
qed

theorem decode_failure_no_disapproval_witness:
  "isl (msg_Decode (Msg (sample_metaData broken_msg 1 [alice, bob])))
   \<and> getApproveFromMsg sample_package (Msg (sample_metaData broken_msg 1 [alice, bob])) = (False, False)
   \<and> abandoning_ExecuteInbound sample_package reliable [] (sample_metaData broken_msg 1 [alice, bob])
       = ([(problem_report_to sample_package (sample_metaData broken_msg 1 [alice, bob]) alice, None),
           (problem_report_to sample_package (sample_metaData broken_msg 1 [alice, bob]) bob, None)],
          Return (Some done, None))"
proof -
  let ?m = "sample_metaData broken_msg 1 [alice, bob]"
  have h: "isl (msg_Decode (Msg ?m))"
    by (simp add: sample_defs)
  then have h': "msg_Type (Msg ?m) \<noteq> ResponseMsgType sample_package \<or> isl (msg_Decode (Msg ?m))" ..
  have rs: "abandoning_recipients sample_package ?m = [alice, bob]"
    by (simp add: abandoning_recipients_def fillRecipient_def Let_def sample_defs)
  have s: "sendProblemReport sample_package reliable [] ?m [alice, bob]
      = ([(problem_report_to sample_package ?m alice, None),
          (problem_report_to sample_package ?m bob, None)], Return (Some done, None))"
    by (simp add: invoke_eq reliable_def problem_report_to_def)
  from h decode_failure_no_disapproval [OF h', of reliable "[]"] show ?thesis
    by (simp add: rs s del: sendProblemReport.simps)
qed

subsection \<open>Connection persistence\<close>

lemma store_invoke_eq: "store_invoke c lg call = (lg @ [(call, c lg call)], c lg call)"
  by (simp add: store_invoke_def Let_def)

lemma saveConnectionRecord_save_fails:
  "c lg (SaveConnectionRecord rcd) = Some err \<Longrightarrow>
     saveConnectionRecord c lg rcd =
       (lg @ [(SaveConnectionRecord rcd, Some err)],
        Some (fmt_Errorf '' failed to save connection record : '' err))"
  by (simp add: saveConnectionRecord_def store_invoke_eq)

lemma saveConnectionRecord_not_completed:
  "c lg (SaveConnectionRecord rcd) = None \<Longrightarrow> State rcd \<noteq> stateNameCompleted \<Longrightarrow>
     saveConnectionRecord c lg rcd = (lg @ [(SaveConnectionRecord rcd, None)], None)"
  by (simp add: saveConnectionRecord_def store_invoke_eq)

lemma saveConnectionRecord_completed:
  "c lg (SaveConnectionRecord rcd) = None \<Longrightarrow> State rcd = stateNameCompleted \<Longrightarrow>
     saveConnectionRecord c lg rcd =
       (lg @ [(SaveConnectionRecord rcd, None),
              (SaveDIDByResolving (Record.TheirDID rcd) (RecipientKeys rcd),
               c (lg @ [(SaveConnectionRecord rcd, None)])
                 (SaveDIDByResolving (Record.TheirDID rcd) (RecipientKeys rcd)))],
        map_option (fmt_Errorf '' failed to save DID by resolving : '')
          (c (lg @ [(SaveConnectionRecord rcd, None)])
             (SaveDIDByResolving (Record.TheirDID rcd) (RecipientKeys rcd))))"
  by (simp add: saveConnectionRecord_def store_invoke_eq split: option.splits)

text \<open>
  C5. \<open>saveConnectionRecord\<close> always calls \<open>SaveConnectionRecord\<close> on the record first.
  Once the record is saved, it calls \<open>SaveDIDByResolving\<close> on \<open>record.TheirDID\<close> with the
  record's recipient keys exactly when the state of the record is \<open>completed\<close>, and it makes
  no other call. It returns nil exactly when no call failed: a failed save of the record and
  a failed resolution each come back wrapped in the function's own message.
\<close>

theorem saveConnectionRecord_contract:
  "case saveConnectionRecord c lg rcd of (lg', res) \<Rightarrow>
     take (length lg) lg' = lg
   \<and> map fst (drop (length lg) lg') =
        SaveConnectionRecord rcd #
        (if c lg (SaveConnectionRecord rcd) = None \<and> State rcd = stateNameCompleted
         then [SaveDIDByResolving (Record.TheirDID rcd) (RecipientKeys rcd)] else [])
   \<and> (res = None \<longleftrightarrow> (\<forall>e \<in> set (drop (length lg) lg'). snd e = None))
   \<and> (\<forall>err. (SaveConnectionRecord rcd, Some err) \<in> set (drop (length lg) lg') \<longrightarrow>
         res = Some (fmt_Errorf '' failed to save connection record : '' err))
   \<and> (\<forall>err. (SaveDIDByResolving (Record.TheirDID rcd) (RecipientKeys rcd), Some err)
                 \<in> set (drop (length lg) lg') \<longrightarrow>
         res = Some (fmt_Errorf '' failed to save DID by resolving : '' err))"
proof (cases "c lg (SaveConnectionRecord rcd)")
  case (Some err)
  then show ?thesis
    by (simp add: saveConnectionRecord_save_fails)
next
  case None
  show ?thesis
  proof (cases "State rcd = stateNameCompleted")
    case True
    with None show ?thesis
      by (auto simp: saveConnectionRecord_completed)
  next
    case False
    with None show ?thesis
      by (simp add: saveConnectionRecord_not_completed)
  qed
qed

theorem saveConnectionRecord_contract_witness:
  "saveConnectionRecord did_store_down [] (sample_record ''completed'') =
     ([(SaveConnectionRecord (sample_record ''completed''), None),
       (SaveDIDByResolving ''did:peer'' [''key-1''], Some (errors_New ''resolve failed''))],
      Some (fmt_Errorf '' failed to save DID by resolving : '' (errors_New ''resolve failed'')))
   \<and> saveConnectionRecord did_store_down [] (sample_record ''responded'') =
     ([(SaveConnectionRecord (sample_record ''responded''), None)], None)"
proof -
  have a: "did_store_down [] (SaveConnectionRecord r) = None" for r
    by (simp add: did_store_down_def)
  have s: "State (sample_record st) = st" "Record.TheirDID (sample_record st) = ''did:peer''"
    "RecipientKeys (sample_record st) = [''key-1'']" for st
    by (simp_all add: sample_record_def)
  have b: "did_store_down lg (SaveDIDByResolving d ks) = Some (errors_New ''resolve failed'')" for lg d ks
    by (simp add: did_store_down_def)
  have d: "saveConnectionRecord did_store_down [] (sample_record ''completed'') =
     ([(SaveConnectionRecord (sample_record ''completed''), None),
       (SaveDIDByResolving ''did:peer'' [''key-1''], Some (errors_New ''resolve failed''))],
      Some (fmt_Errorf '' failed to save DID by resolving : '' (errors_New ''resolve failed'')))"
    by (simp add: saveConnectionRecord_def store_invoke_eq a b s stateNameCompleted_def)
  from saveConnectionRecord_contract [where c = did_store_down and lg = "[]" and rcd = "sample_record ''responded''"]
  have e: "saveConnectionRecord did_store_down [] (sample_record ''responded'') =
     ([(SaveConnectionRecord (sample_record ''responded''), None)], None)"
    by (simp add: saveConnectionRecord_not_completed a s stateNameCompleted_def)
  from d e show ?thesis by simp
qed

text \<open>
  C9. \<open>saveConnectionRecordWithMapping\<close> calls \<open>SaveConnectionRecordWithMappings\<close> and then,
  when that succeeded and \<open>record.MyDID\<close> is not empty, \<open>SaveDIDByResolving\<close> on
  \<open>record.MyDID\<close> with no keys; it makes no other call, whatever the state of the record. So
  no call resolves \<open>record.TheirDID\<close> (when it differs from \<open>record.MyDID\<close>), and none is
  the resolution of the peer DID with the record's recipient keys that
  \<open>saveConnectionRecord\<close> makes for a completed record.
\<close>

theorem saveConnectionRecordWithMapping_dids:
  "case saveConnectionRecordWithMapping c lg rcd of (lg', res) \<Rightarrow>
     take (length lg) lg' = lg
   \<and> map fst (drop (length lg) lg') =
        SaveConnectionRecordWithMappings rcd #
        (if c lg (SaveConnectionRecordWithMappings rcd) = None \<and> Record.MyDID rcd \<noteq> []
         then [SaveDIDByResolving (Record.MyDID rcd) []] else [])
   \<and> (Record.TheirDID rcd \<noteq> Record.MyDID rcd \<longrightarrow>
        (\<forall>ks. SaveDIDByResolving (Record.TheirDID rcd) ks \<notin> fst ` set (drop (length lg) lg')))
   \<and> (RecipientKeys rcd \<noteq> [] \<longrightarrow>
        SaveDIDByResolving (Record.TheirDID rcd) (RecipientKeys rcd)
          \<notin> fst ` set (drop (length lg) lg'))"
  by (auto simp: saveConnectionRecordWithMapping_def store_invoke_eq split: option.splits)

theorem saveConnectionRecordWithMapping_dids_witness:
  "State (sample_record ''completed'') = stateNameCompleted
   \<and> saveConnectionRecordWithMapping store_ok [] (sample_record ''completed'') =
     ([(SaveConnectionRecordWithMappings (sample_record ''completed''), None),
       (SaveDIDByResolving ''did:me'' [], None)], None)
   \<and> Record.TheirDID (sample_record ''completed'') \<noteq> Record.MyDID (sample_record ''completed'')"
proof -
  have s: "State (sample_record st) = st" "Record.TheirDID (sample_record st) = ''did:peer''"
    "Record.MyDID (sample_record st) = ''did:me''" for st
    by (simp_all add: sample_record_def)
  have d: "saveConnectionRecordWithMapping store_ok [] (sample_record ''completed'') =
     ([(SaveConnectionRecordWithMappings (sample_record ''completed''), None),
       (SaveDIDByResolving ''did:me'' [], None)], None)"
    by (simp add: saveConnectionRecordWithMapping_def store_invoke_eq store_ok_def s)
  from saveConnectionRecordWithMapping_dids [where c = store_ok and lg = "[]" and rcd = "sample_record ''completed''"] d
  show ?thesis by (simp add: s stateNameCompleted_def)
qed

subsection \<open>Successful and failed executions, and the messages already sent\<close>

lemma sendProblemReport_log:
  "sendProblemReport K M lg m rs = (lg', res) \<Longrightarrow>
     (if failed res
      then \<exists>n < length rs. \<exists>err.
             lg' = lg @ map (accepted K m) (take n rs) @ [(problem_report_to K m (rs ! n), Some err)]
           \<and> M (lg @ map (accepted K m) (take n rs)) (problem_report_to K m (rs ! n)) = Some err
           \<and> res = Return (None, Some (fmt_Errorf ''send problem-report: '' err))
      else lg' = lg @ map (accepted K m) rs \<and> res = Return (Some done, None))"
proof (induction rs arbitrary: lg)
  case Nil
  then show ?case by auto
next
  case (Cons r rs)
  let ?c = "problem_report_to K m r"
  show ?case
  proof (cases "M lg ?c")
    case (Some err)
    with Cons.prems have "lg' = lg @ map (accepted K m) (take 0 (r # rs)) @ [(problem_report_to K m ((r # rs) ! 0), Some err)]"
      "M (lg @ map (accepted K m) (take 0 (r # rs))) (problem_report_to K m ((r # rs) ! 0)) = Some err"
      "res = Return (None, Some (fmt_Errorf ''send problem-report: '' err))"
      by (auto simp: invoke_eq problem_report_to_def)
    moreover from this(3) have "failed res" by simp
    moreover have "0 < length (r # rs)" by simp
    ultimately show ?thesis by (simp only: if_True) blast
  next
    case None
    with Cons.prems have rec: "sendProblemReport K M (lg @ [accepted K m r]) m rs = (lg', res)"
      by (auto simp: invoke_eq problem_report_to_def accepted_def)
    note ih = Cons.IH [OF rec]
    show ?thesis
    proof (cases "failed res")
      case True
      with ih obtain n err where n: "n < length rs"
        "lg' = (lg @ [accepted K m r]) @ map (accepted K m) (take n rs)
               @ [(problem_report_to K m (rs ! n), Some err)]"
        "M ((lg @ [accepted K m r]) @ map (accepted K m) (take n rs)) (problem_report_to K m (rs ! n))
           = Some err"
        "res = Return (None, Some (fmt_Errorf ''send problem-report: '' err))"
        by auto
      then have "Suc n < length (r # rs)"
        "lg' = lg @ map (accepted K m) (take (Suc n) (r # rs))
               @ [(problem_report_to K m ((r # rs) ! Suc n), Some err)]"
        "M (lg @ map (accepted K m) (take (Suc n) (r # rs))) (problem_report_to K m ((r # rs) ! Suc n))
           = Some err"
        by simp_all
      with True n(4) show ?thesis by (simp only: if_True) blast
    next
      case False
      with ih show ?thesis by simp
    qed
  qed
qed

lemma sent_accepted_refused:
  "sent (lg @ map (accepted K m) rs @ [(c, Some err)]) = sent lg @ map (problem_report_to K m) rs"
  by (simp add: sent_def accepted_def comp_def)

lemma single_callI:
  "lg' = lg @ [(c, M lg c)] \<Longrightarrow>
   (M lg c = None \<Longrightarrow> \<exists>st. res = Return (Some st, None)) \<Longrightarrow>
   (\<And>err. M lg c = Some err \<Longrightarrow> failed res) \<Longrightarrow> single_call M lg lg' res"
  unfolding single_call_def by (cases "M lg c") auto

lemma arranging_inbound_shape:
  "arranging_ExecuteInbound K M lg m = (lg', res) \<Longrightarrow>
     no_call lg lg' res \<and> res \<noteq> Return (Some noOp, None) \<or> single_call M lg lg' res"
  by (auto simp: arranging_ExecuteInbound_def invoke_eq no_call_def
           split: if_splits prod.splits option.splits intro!: single_callI)

lemma deliveringSkipInvitation_shape:
  "deliveringSkipInvitation M lg m rs = (lg', res) \<Longrightarrow>
     no_call lg lg' res \<and> failed res \<or> single_call M lg lg' res"
  by (auto simp: deliveringSkipInvitation_def invoke_eq no_call_def
           split: if_splits prod.splits option.splits intro!: single_callI)

lemma delivering_inbound_shape:
  assumes "delivering_ExecuteInbound K M lg m = (lg', res)"
  shows "no_call lg lg' res \<and> (failed res \<or> res = Return (Some abandoning, None))
       \<or> single_call M lg lg' res"
proof (cases "disapproved K (Msg m)")
  case True
  with assms show ?thesis
    by (auto simp: delivering_ExecuteInbound_def disapproved_def no_call_def split: prod.splits)
next
  case no: False
  show ?thesis
  proof (cases "isSkipProposal K m")
    case True
    with no assms have "deliveringSkipInvitation M lg m (Recipients m) = (lg', res)"
      by (auto simp: delivering_ExecuteInbound_def disapproved_def split: prod.splits)
    from deliveringSkipInvitation_shape [OF this] show ?thesis by blast
  next
    case False
    with no assms show ?thesis
      by (cases "Invitation m = None")
         (auto simp: delivering_ExecuteInbound_def disapproved_def invoke_eq no_call_def
            split: prod.splits option.splits intro!: single_callI)
  qed
qed

lemma confirming_inbound_shape:
  "confirming_ExecuteInbound K M lg m = (lg', res) \<Longrightarrow>
     no_call lg lg' res \<and> failed res \<or> single_call M lg lg' res"
  by (auto simp: confirming_ExecuteInbound_def invoke_eq no_call_def
           split: if_splits prod.splits option.splits intro!: single_callI)

lemma deciding_inbound_shape:
  "deciding_ExecuteInbound K M lg m = (lg', res) \<Longrightarrow> single_call M lg lg' res"
  by (auto simp: deciding_ExecuteInbound_def invoke_eq Let_def
           split: if_splits prod.splits option.splits intro!: single_callI)

lemma outbound_shape:
  "ExecuteOutbound K s M lg m = (lg', res) \<Longrightarrow>
     no_call lg lg' res \<and> failed res \<or> single_call M lg lg' res"
  by (cases s)
     (auto simp: noOp_ExecuteOutbound_def start_ExecuteOutbound_def done_ExecuteOutbound_def
        arranging_ExecuteOutbound_def delivering_ExecuteOutbound_def confirming_ExecuteOutbound_def
        abandoning_ExecuteOutbound_def deciding_ExecuteOutbound_def waiting_ExecuteOutbound_def
        requesting_ExecuteOutbound_def invoke_eq no_call_def
        split: if_splits prod.splits option.splits intro!: single_callI)

lemma inbound_shape:
  "s \<noteq> abandoning \<Longrightarrow> ExecuteInbound K s M lg m = (lg', res) \<Longrightarrow>
     no_call lg lg' res \<or> single_call M lg lg' res"
  by (cases s)
     (auto simp: noOp_ExecuteInbound_def start_ExecuteInbound_def done_ExecuteInbound_def
        waiting_ExecuteInbound_def requesting_ExecuteInbound_def no_call_def
        dest: arranging_inbound_shape delivering_inbound_shape confirming_inbound_shape
          deciding_inbound_shape)

lemma inbound_sending_shape:
  assumes "ExecuteInbound K s M lg m = (lg', res)" and "\<not> failed res"
    and "s = confirming \<or> s = deciding \<or> s = arranging \<and> res = Return (Some noOp, None)
         \<or> s = delivering \<and> res \<noteq> Return (Some abandoning, None)"
  shows "single_call M lg lg' res"
  using assms
  by (auto dest: arranging_inbound_shape delivering_inbound_shape confirming_inbound_shape
        deciding_inbound_shape)

lemma no_call_facts:
  assumes "no_call lg lg' res"
  shows "take (length lg) lg' = lg" "length lg' \<le> Suc (length lg)"
    "\<forall>e \<in> set (drop (length lg) lg'). snd e = None"
    "\<forall>e \<in> set (drop (length lg) lg'). snd e \<noteq> None"
    "sent lg' = sent lg" "\<not> failed res \<Longrightarrow> \<exists>st. res = Return (Some st, None)"
  using assms by (auto simp: no_call_def)

lemma single_call_facts:
  assumes "single_call M lg lg' res"
  shows "take (length lg) lg' = lg" "length lg' = Suc (length lg)"
    "\<not> failed res \<Longrightarrow> \<forall>e \<in> set (drop (length lg) lg'). snd e = None"
    "failed res \<Longrightarrow> \<forall>e \<in> set (drop (length lg) lg'). snd e \<noteq> None"
    "failed res \<Longrightarrow> sent lg' = sent lg" "\<not> failed res \<Longrightarrow> \<exists>st. res = Return (Some st, None)"
  using assms by (auto simp: single_call_def sent_def split: option.splits)

lemma abandoning_inbound_log:
  assumes "abandoning_ExecuteInbound K M lg m = (lg', res)"
  shows "sendProblemReport K M lg m (abandoning_addressed K m) = (lg', res)"
proof (cases "disapproved K (Msg m)")
  case False
  then show ?thesis
    using assms
    by (auto simp: abandoning_ExecuteInbound_def abandoning_addressed_def disapproved_def Let_def
          split: prod.splits)
next
  case True
  then obtain a where g: "getApproveFromMsg K (Msg m) = (a, True)" and a: "\<not> a"
    by (auto simp: disapproved_def split: prod.splits)
  from g have "msg_Type (Msg m) = ResponseMsgType K" by (rule getApprove_ok_type)
  then have "abandoning_recipients K m = fillRecipient (Recipients m) m"
    by (rule abandoning_recipients_response)
  then have ne: "abandoning_recipients K m \<noteq> []"
    by (simp add: fillRecipient_nonempty)
  show ?thesis
  proof (cases "WaitCount m = 1")
    case True
    with assms g a \<open>disapproved K (Msg m)\<close> show ?thesis
      by (simp add: abandoning_ExecuteInbound_def abandoning_addressed_def Let_def)
  next
    case False
    with assms g a ne \<open>disapproved K (Msg m)\<close> show ?thesis
      by (simp add: abandoning_ExecuteInbound_def abandoning_addressed_def Let_def slice_to_1_def
            del: sendProblemReport.simps)
  qed
qed

lemma abandoning_addressed_prefix:
  "abandoning_addressed K m = take (length (abandoning_addressed K m)) (abandoning_recipients K m)"
  by (auto simp: abandoning_addressed_def min_def)

text \<open>
  C2, as the code has it. Every execution only appends to the messenger log. An execution
  that does not fail returns a followup state and a nil error, and the messenger accepted
  every call it made; on its sending paths (every outbound execution that succeeds,
  \<open>confirming\<close> and \<open>deciding\<close>, \<open>arranging\<close> answering \<open>noOp\<close>, \<open>delivering\<close> answering
  \<open>confirming\<close> or \<open>done\<close>) it made exactly one call. Every outbound execution, and every
  inbound execution but that of \<open>abandoning\<close>, makes at most one call; when it fails, that
  call (if any) was refused and nothing has been sent. \<open>abandoning.ExecuteInbound\<close> hands
  one problem-report per addressed recipient to the messenger, in order: when it succeeds,
  all of them were accepted and it returns \<open>done\<close>; when it fails, its calls are the accepted
  problem-reports to the recipients before the \<open>n\<close>-th, followed by the one to the \<open>n\<close>-th
  that the messenger refused and by nothing else, and it returns that error wrapped.
\<close>

theorem execute_succeeds_or_sent_prefix:
  "((ExecuteInbound K s M lg m = (lg', res) \<or> ExecuteOutbound K s M lg m = (lg', res)) \<longrightarrow>
      take (length lg) lg' = lg
    \<and> (\<not> failed res \<longrightarrow>
          (\<exists>st. res = Return (Some st, None))
        \<and> (\<forall>e \<in> set (drop (length lg) lg'). snd e = None)))
 \<and> ((ExecuteOutbound K s M lg m = (lg', res)
      \<or> s \<noteq> abandoning \<and> ExecuteInbound K s M lg m = (lg', res)) \<longrightarrow>
      length lg' \<le> Suc (length lg)
    \<and> (failed res \<longrightarrow>
          (\<forall>e \<in> set (drop (length lg) lg'). snd e \<noteq> None) \<and> sent lg' = sent lg))
 \<and> (\<not> failed res
      \<and> (ExecuteOutbound K s M lg m = (lg', res)
         \<or> ExecuteInbound K s M lg m = (lg', res)
           \<and> (s = confirming \<or> s = deciding
              \<or> s = arranging \<and> res = Return (Some noOp, None)
              \<or> s = delivering \<and> res \<noteq> Return (Some abandoning, None))) \<longrightarrow>
      length lg' = Suc (length lg))
 \<and> (ExecuteInbound K abandoning M lg m = (lg', res) \<longrightarrow>
      abandoning_addressed K m = take (length (abandoning_addressed K m)) (abandoning_recipients K m)
    \<and> (if failed res
       then \<exists>n < length (abandoning_addressed K m). \<exists>err.
              lg' = lg @ map (accepted K m) (take n (abandoning_addressed K m))
                       @ [(problem_report_to K m (abandoning_addressed K m ! n), Some err)]
            \<and> M (lg @ map (accepted K m) (take n (abandoning_addressed K m)))
                 (problem_report_to K m (abandoning_addressed K m ! n)) = Some err
            \<and> res = Return (None, Some (fmt_Errorf ''send problem-report: '' err))
            \<and> sent lg' = sent lg @ map (problem_report_to K m) (take n (abandoning_addressed K m))
       else lg' = lg @ map (accepted K m) (abandoning_addressed K m)
            \<and> res = Return (Some done, None)))"
proof -
  have ab: "(if failed res
       then \<exists>n < length (abandoning_addressed K m). \<exists>err.
              lg' = lg @ map (accepted K m) (take n (abandoning_addressed K m))
                       @ [(problem_report_to K m (abandoning_addressed K m ! n), Some err)]
            \<and> M (lg @ map (accepted K m) (take n (abandoning_addressed K m)))
                 (problem_report_to K m (abandoning_addressed K m ! n)) = Some err
            \<and> res = Return (None, Some (fmt_Errorf ''send problem-report: '' err))
            \<and> sent lg' = sent lg @ map (problem_report_to K m) (take n (abandoning_addressed K m))
       else lg' = lg @ map (accepted K m) (abandoning_addressed K m)
            \<and> res = Return (Some done, None))"
    if "ExecuteInbound K abandoning M lg m = (lg', res)"
  proof -
    from that have "sendProblemReport K M lg m (abandoning_addressed K m) = (lg', res)"
      by (simp add: abandoning_inbound_log)
    from sendProblemReport_log [OF this] show ?thesis
      by (cases "failed res") (auto simp: sent_accepted_refused)
  qed
  have ab_ok: "take (length lg) lg' = lg
      \<and> (\<not> failed res \<longrightarrow> (\<exists>st. res = Return (Some st, None))
            \<and> (\<forall>e \<in> set (drop (length lg) lg'). snd e = None))"
    if "ExecuteInbound K abandoning M lg m = (lg', res)"
    using ab [OF that] by (cases "failed res") (auto simp: accepted_def)
  have inb: "take (length lg) lg' = lg
      \<and> (\<not> failed res \<longrightarrow> (\<exists>st. res = Return (Some st, None))
            \<and> (\<forall>e \<in> set (drop (length lg) lg'). snd e = None))"
    if r: "ExecuteInbound K s M lg m = (lg', res)"
  proof (cases "s = abandoning")
    case True
    with r ab_ok show ?thesis by simp
  next
    case False
    from inbound_shape [OF False r] show ?thesis
      using no_call_facts [of lg lg' res] single_call_facts [of M lg lg' res] by blast
  qed
  have outb: "take (length lg) lg' = lg
      \<and> (\<not> failed res \<longrightarrow> (\<exists>st. res = Return (Some st, None))
            \<and> (\<forall>e \<in> set (drop (length lg) lg'). snd e = None))"
    if r: "ExecuteOutbound K s M lg m = (lg', res)"
    using outbound_shape [OF r] no_call_facts [of lg lg' res] single_call_facts [of M lg lg' res]
    by blast
  have one: "length lg' \<le> Suc (length lg)
      \<and> (failed res \<longrightarrow> (\<forall>e \<in> set (drop (length lg) lg'). snd e \<noteq> None) \<and> sent lg' = sent lg)"
    if r: "ExecuteOutbound K s M lg m = (lg', res)
           \<or> s \<noteq> abandoning \<and> ExecuteInbound K s M lg m = (lg', res)"
  proof -
    from r have "no_call lg lg' res \<or> single_call M lg lg' res"
      using outbound_shape [of K s M lg m lg' res] inbound_shape [of s K M lg m lg' res] by blast
    then show ?thesis
      using no_call_facts [of lg lg' res] single_call_facts [of M lg lg' res]
      by (metis le_refl)
  qed
  have snd: "length lg' = Suc (length lg)"
    if nf: "\<not> failed res"
      and r: "ExecuteOutbound K s M lg m = (lg', res)
         \<or> ExecuteInbound K s M lg m = (lg', res)
           \<and> (s = confirming \<or> s = deciding
              \<or> s = arranging \<and> res = Return (Some noOp, None)
              \<or> s = delivering \<and> res \<noteq> Return (Some abandoning, None))"
  proof -
    from nf r have "single_call M lg lg' res"
      using outbound_shape [of K s M lg m lg' res]
        inbound_sending_shape [of K s M lg m lg' res] by blast
    then show ?thesis by (rule single_call_facts(2))
  qed
  from inb outb one snd ab abandoning_addressed_prefix [of K m] show ?thesis
    by (intro conjI impI) blast+
qed

theorem execute_succeeds_or_sent_prefix_witness:
  "ExecuteInbound sample_package deciding reliable []
        (sample_metaData (response_msg True) 2 [alice, bob]) =
       ([(ReplyTo ''id-1'' (NewDIDCommMsgMap (ResponseMsg ''response'' None True)), None)],
        Return (Some waiting, None))
   \<and> \<not> failed (Return (Some waiting, None))
   \<and> length [(ReplyTo ''id-1'' (NewDIDCommMsgMap (ResponseMsg ''response'' None True)),
               None :: error option)] = Suc (length ([] :: log))
   \<and> ExecuteInbound sample_package deciding unreachable []
        (sample_metaData (response_msg True) 2 [alice, bob]) =
       ([(ReplyTo ''id-1'' (NewDIDCommMsgMap (ResponseMsg ''response'' None True)),
          Some (errors_New ''no route''))],
        Return (Some waiting, Some (errors_New ''no route'')))
   \<and> failed (Return (Some waiting, Some (errors_New ''no route'')))
   \<and> sent [(ReplyTo ''id-1'' (NewDIDCommMsgMap (ResponseMsg ''response'' None True)),
             Some (errors_New ''no route''))] = sent []
   \<and> failed (snd (ExecuteInbound sample_package abandoning fails_after_first []
                     (sample_metaData (response_msg True) 2 [alice, bob])))
   \<and> (\<exists>n < length (abandoning_addressed sample_package
                      (sample_metaData (response_msg True) 2 [alice, bob])).
         sent (fst (ExecuteInbound sample_package abandoning fails_after_first []
                      (sample_metaData (response_msg True) 2 [alice, bob]))) =
         sent [] @ map (problem_report_to sample_package
                          (sample_metaData (response_msg True) 2 [alice, bob]))
                     (take n (abandoning_addressed sample_package
                                (sample_metaData (response_msg True) 2 [alice, bob]))))"
proof -
  let ?m = "sample_metaData (response_msg True) 2 [alice, bob]"
  let ?c = "ReplyTo ''id-1'' (NewDIDCommMsgMap (ResponseMsg ''response'' None True))"
  let ?ok = "[(?c, None :: error option)]"
  let ?ko = "[(?c, Some (errors_New ''no route''))]"
  let ?res = "Return (Some waiting, Some (errors_New ''no route''))"
  have ev1: "ExecuteInbound sample_package deciding reliable [] ?m = (?ok, Return (Some waiting, None))"
    by (simp add: deciding_ExecuteInbound_def invoke_eq Let_def sample_defs)
  have ev2: "ExecuteInbound sample_package deciding unreachable [] ?m = (?ko, ?res)"
    by (simp add: deciding_ExecuteInbound_def invoke_eq Let_def sample_defs)
  obtain lgA resA where ev3: "ExecuteInbound sample_package abandoning fails_after_first [] ?m = (lgA, resA)"
    by (cases "ExecuteInbound sample_package abandoning fails_after_first [] ?m")
  have f3: "failed resA"
    using ev3
    by (auto simp: abandoning_ExecuteInbound_def abandoning_recipients_def fillRecipient_def
          getApproveFromMsg_def invoke_eq Let_def sample_defs)
  have nf: "\<not> failed (Return (Some waiting, None))" and f: "failed ?res" and d: "deciding \<noteq> abandoning"
    by simp_all
  from execute_succeeds_or_sent_prefix
    [where K = sample_package and s = deciding and M = reliable and lg = "[]" and m = ?m
       and lg' = ?ok and res = "Return (Some waiting, None)"]
  have w1: "length ?ok = Suc (length ([] :: log))"
    using ev1 nf by blast
  from execute_succeeds_or_sent_prefix
    [where K = sample_package and s = deciding and M = unreachable and lg = "[]" and m = ?m
       and lg' = ?ko and res = ?res]
  have w2: "sent ?ko = sent []"
    using ev2 f d by blast
  from execute_succeeds_or_sent_prefix
    [where K = sample_package and s = abandoning and M = fails_after_first and lg = "[]"
       and m = ?m and lg' = lgA and res = resA]
  have w3: "\<exists>n < length (abandoning_addressed sample_package ?m).
      sent lgA = sent [] @ map (problem_report_to sample_package ?m)
                             (take n (abandoning_addressed sample_package ?m))"
    using ev3 f3 by (simp only: if_True) blast
  from ev1 nf w1 ev2 f w2 f3 w3 ev3 show ?thesis
    by (simp only: fst_conv snd_conv) blast
qed

text \<open>
  C2, as claimed, fails: \<open>abandoning.ExecuteInbound\<close> on an approved Response with two
  recipients, with a messenger that accepts its first call only, sends the problem-report
  to the first recipient and then returns the error of the second send.
\<close>

theorem partial_send_counterexample:
  "ExecuteInbound sample_package abandoning fails_after_first []
     (sample_metaData (response_msg True) 2 [alice, bob]) =
     ([(problem_report_to sample_package (sample_metaData (response_msg True) 2 [alice, bob]) alice, None),
       (problem_report_to sample_package (sample_metaData (response_msg True) 2 [alice, bob]) bob,
        Some (errors_New ''connection lost''))],
      Return (None, Some (fmt_Errorf ''send problem-report: '' (errors_New ''connection lost''))))
   \<and> sent [(problem_report_to sample_package (sample_metaData (response_msg True) 2 [alice, bob]) alice, None),
           (problem_report_to sample_package (sample_metaData (response_msg True) 2 [alice, bob]) bob,
            Some (errors_New ''connection lost''))]
       = [problem_report_to sample_package (sample_metaData (response_msg True) 2 [alice, bob]) alice]
   \<and> sent [] = []"
  by (simp add: abandoning_ExecuteInbound_def abandoning_recipients_def fillRecipient_def
        getApproveFromMsg_def invoke_eq sent_def Let_def sample_defs)

end
